theory Spec2Isabelle
  imports Complex_Main "HOL-Library.Multiset" "HOL-Library.Sublist"
begin

section \<open>The TMDB client of the Letterboxd recommender\<close>

text \<open>
  This theory embeds \<^verbatim>\<open>modules/tmdb_client.py\<close> (class \<^verbatim>\<open>TMDBClient\<close>): the
  transport with its retry decorator, the in-memory cache, title normalisation and
  resolution, detail extraction, batch enrichment and the candidate pool.

  Conventions of the embedding.
  \<^item> Python strings are \<open>string\<close>; the characters are read as Latin-1 code points.
  \<^item> Python's unbounded integers are \<open>int\<close>; floats that are only compared are \<open>rat\<close>.
  \<^item> An exception is a value of \<open>exc\<close>; a function that may raise returns \<open>exc + 'a\<close>.
  \<^item> The client object is the record \<open>client\<close>, passed in and returned.
  \<^item> The external catalog is part of the record \<open>world\<close>: for every request it gives the
    outcome of \<^verbatim>\<open>session.get\<close>, which may depend on how many HTTP calls were made before.
  \<^item> Payloads are typed after the catalog's schema: a key the code reads with \<^verbatim>\<open>.get\<close> is an
    \<open>option\<close> field, \<open>None\<close> standing for the missing key.
  \<^item> Printing, progress callbacks and the wall-clock rate limiter are left out.
\<close>

subsection \<open>Exceptions\<close>

datatype exc =
    TMDBAPIError
  | MovieNotFoundError
  | RequestsTimeout
  | RequestsConnectionError
  | RetryError
  | ValueError
  | KeyError

text \<open>\<^verbatim>\<open>isinstance(e, requests.exceptions.RequestException)\<close>: \<^verbatim>\<open>Timeout\<close> and
  \<^verbatim>\<open>ConnectionError\<close> are its subclasses, \<^verbatim>\<open>TMDBError\<close> and its subclasses are not.\<close>

fun is_request_exception :: "exc \<Rightarrow> bool" where
  "is_request_exception RequestsTimeout = True"
| "is_request_exception RequestsConnectionError = True"
| "is_request_exception _ = False"

subsection \<open>Payloads of the catalog\<close>

text \<open>An entry of \<^verbatim>\<open>results\<close> in a search, similar or recommendations response.\<close>

record search_hit =
  hit_id :: int
  hit_title :: "string option"
  hit_release_date :: "string option"

record search_payload =
  sp_results :: "search_hit list option"

record genre_entry =
  genre_name :: string

record crew_entry =
  crew_name :: string
  crew_job :: "string option"

record cast_entry =
  cast_name :: string
  cast_id :: "int option"
  cast_profile_path :: "string option"

record credits_payload =
  cp_crew :: "crew_entry list option"
  cp_cast :: "cast_entry list option"

record keyword_entry =
  keyword_name :: string

record keywords_payload =
  kp_keywords :: "keyword_entry list option"

record release_entry =
  re_certification :: "string option"

record country_entry =
  ce_iso_3166_1 :: "string option"
  ce_release_dates :: "release_entry list option"

record release_dates_payload =
  rp_results :: "country_entry list option"

text \<open>The response of \<^verbatim>\<open>/movie/{id}\<close> with \<^verbatim>\<open>append_to_response\<close>.\<close>

record movie_payload =
  mp_id :: "int option"
  mp_title :: "string option"
  mp_original_title :: "string option"
  mp_release_date :: "string option"
  mp_overview :: "string option"
  mp_genres :: "genre_entry list option"
  mp_runtime :: "int option"
  mp_vote_average :: "rat option"
  mp_vote_count :: "int option"
  mp_popularity :: "rat option"
  mp_poster_path :: "string option"
  mp_backdrop_path :: "string option"
  mp_tagline :: "string option"
  mp_status :: "string option"
  mp_budget :: "int option"
  mp_revenue :: "int option"
  mp_imdb_id :: "string option"
  mp_credits :: "credits_payload option"
  mp_keywords :: "keywords_payload option"
  mp_release_dates :: "release_dates_payload option"

subsection \<open>Records the client produces\<close>

record actor_data =
  actor_name :: string
  actor_id :: "int option"
  profile_path :: "string option"
  profile_url :: "string option"

text \<open>The dictionary returned by \<^verbatim>\<open>_extract_movie_info\<close>.\<close>

record details =
  tmdb_id :: "int option"
  title :: "string option"
  original_title :: "string option"
  year :: "int option"
  release_date :: string
  overview :: string
  genres :: "string list"
  directors :: "string list"
  cast :: "actor_data list"
  runtime :: "int option"
  rating :: "rat option"
  vote_average :: "rat option"
  vote_count :: "int option"
  popularity :: "rat option"
  keyword_names :: "string list"
  certification :: "string option"
  poster_url :: "string option"
  poster_path :: "string option"
  backdrop_path :: "string option"
  tagline :: string
  status :: "string option"
  budget :: "int option"
  revenue :: "int option"
  imdb_id :: "string option"

text \<open>An input item \<^verbatim>\<open>{'title': ..., 'year': ...}\<close> of the scrapers.\<close>

record movie_item =
  item_title :: "string option"
  item_year :: "int option"

text \<open>\<^verbatim>\<open>{**movie, **details}\<close>: every key of \<open>details\<close> wins, the item is kept beside it.\<close>

record enriched = details +
  source_item :: movie_item

text \<open>The entries built by \<^verbatim>\<open>get_similar_movies\<close> and \<^verbatim>\<open>get_movie_recommendations\<close>.\<close>

record candidate =
  cand_tmdb_id :: int
  cand_title :: string
  cand_year :: "int option"

subsection \<open>The catalog and the client state\<close>

datatype 'j http_outcome = GetRaises exc | Response int 'j

text \<open>
  What lies outside the repository: the catalog's answer to each request (the first
  argument is the number of HTTP calls made so far; a search carries the title and the
  year parameter, when it is sent), and the function \<^verbatim>\<open>fuzz.ratio\<close> of the rapidfuzz
  library, a similarity between 0 and 100.
\<close>

record world =
  search_response :: "nat \<Rightarrow> string \<Rightarrow> int option \<Rightarrow> search_payload http_outcome"
  details_response :: "nat \<Rightarrow> int \<Rightarrow> movie_payload http_outcome"
  similar_response :: "nat \<Rightarrow> int \<Rightarrow> search_payload http_outcome"
  recommendations_response :: "nat \<Rightarrow> int \<Rightarrow> search_payload http_outcome"
  fuzz_ratio :: "string \<Rightarrow> string \<Rightarrow> rat"

text \<open>
  \<^verbatim>\<open>self.cache\<close> is one dictionary (\<^verbatim>\<open>Config.ENABLE_CACHE\<close> is the constant \<^verbatim>\<open>True\<close>). Its
  keys start with \<^verbatim>\<open>search:\<close> or \<^verbatim>\<open>details:\<close>; the entries of the first kind hold an id or
  \<^verbatim>\<open>None\<close>, those of the second a details dictionary, so the dictionary is kept as two
  maps, each under the full key. \<open>http_calls\<close> counts the calls of \<^verbatim>\<open>session.get\<close>,
  \<open>backoff_sleeps\<close> lists the waits of the retry decorator in seconds.
\<close>

record client =
  search_cache :: "string \<rightharpoonup> int option"
  details_cache :: "string \<rightharpoonup> details"
  http_calls :: nat
  backoff_sleeps :: "nat list"

definition new_client :: client where
  "new_client = \<lparr>search_cache = Map.empty, details_cache = Map.empty,
                  http_calls = 0, backoff_sleeps = []\<rparr>"

subsection \<open>Transport: \<^verbatim>\<open>_make_request\<close> under the retry decorator\<close>

text \<open>The \<^verbatim>\<open>try\<close> block of \<^verbatim>\<open>_make_request\<close>: the call and the status checks.\<close>

definition check_response :: "'j http_outcome \<Rightarrow> exc + 'j" where
  "check_response out =
     (case out of
        GetRaises e \<Rightarrow> Inl e
      | Response status_code body \<Rightarrow>
          if status_code = 401 then Inl TMDBAPIError
          else if status_code = 404 then Inl MovieNotFoundError
          else if status_code = 429 then Inl TMDBAPIError
          else if status_code \<noteq> 200 then Inl TMDBAPIError
          else Inr body)"

text \<open>The two \<^verbatim>\<open>except\<close> clauses: a timeout and any other request exception are re-raised
  as \<^verbatim>\<open>TMDBAPIError\<close>; every other exception passes through.\<close>

definition except_clauses :: "exc + 'j \<Rightarrow> exc + 'j" where
  "except_clauses r =
     (case r of
        Inl e \<Rightarrow>
          if e = RequestsTimeout then Inl TMDBAPIError
          else if is_request_exception e then Inl TMDBAPIError
          else Inl e
      | Inr body \<Rightarrow> Inr body)"

text \<open>The undecorated body: one attempt, one HTTP call.\<close>

definition make_request_body ::
  "(nat \<Rightarrow> 'j http_outcome) \<Rightarrow> client \<Rightarrow> (exc + 'j) \<times> client" where
  "make_request_body resp st =
     (except_clauses (check_response (resp (http_calls st))),
      st\<lparr>http_calls := Suc (http_calls st)\<rparr>)"

text \<open>
  The decorator \<^verbatim>\<open>@retry(stop=stop_after_attempt(3), wait=wait_exponential(multiplier=1,
  min=2, max=10), retry=retry_if_exception_type(RequestException))\<close> of the tenacity
  library: after an attempt, a result or an exception that is not of the retried type is
  handed to the caller; otherwise, when the stop condition holds, \<^verbatim>\<open>RetryError\<close> is raised;
  otherwise the decorator sleeps and calls the body again.
\<close>

definition retry_if_exception_type :: "exc \<Rightarrow> bool" where
  "retry_if_exception_type e = is_request_exception e"

definition stop_after_attempt :: "nat \<Rightarrow> bool" where
  "stop_after_attempt attempt_number = (attempt_number \<ge> 3)"

definition wait_exponential :: "nat \<Rightarrow> nat" where
  "wait_exponential attempt_number = max (max 0 2) (min (1 * 2 ^ (attempt_number - 1)) 10)"

function retrying ::
  "(client \<Rightarrow> (exc + 'j) \<times> client) \<Rightarrow> nat \<Rightarrow> client \<Rightarrow> (exc + 'j) \<times> client" where
  "retrying fn attempt_number st =
     (let (r, st') = fn st in
      case r of
        Inr v \<Rightarrow> (Inr v, st')
      | Inl e \<Rightarrow>
          if \<not> retry_if_exception_type e then (Inl e, st')
          else if stop_after_attempt attempt_number then (Inl RetryError, st')
          else retrying fn (Suc attempt_number)
                 (st'\<lparr>backoff_sleeps := backoff_sleeps st' @ [wait_exponential attempt_number]\<rparr>))"
  by pat_completeness auto
termination
  by (relation "measure (\<lambda>(fn, attempt_number, st). 3 - attempt_number)")
     (auto simp: stop_after_attempt_def)

definition make_request ::
  "(nat \<Rightarrow> 'j http_outcome) \<Rightarrow> client \<Rightarrow> (exc + 'j) \<times> client" where
  "make_request resp st = retrying (make_request_body resp) 1 st"


subsection \<open>Strings of Python\<close>

text \<open>\<^verbatim>\<open>Py_UNICODE_ISSPACE\<close> on Latin-1: it decides \<^verbatim>\<open>\s\<close> in a regular expression and the
  separators of \<^verbatim>\<open>str.split()\<close>.\<close>

definition py_isspace :: "char \<Rightarrow> bool" where
  "py_isspace c =
     (let n = (of_char c :: nat)
      in (9 \<le> n \<and> n \<le> 13) \<or> (28 \<le> n \<and> n \<le> 32) \<or> n = 133 \<or> n = 160)"

text \<open>\<^verbatim>\<open>str.lower()\<close> on Latin-1: the ASCII capitals and the accented capitals (all of
  \<open>0xC0..0xDE\<close> but the multiplication sign) move up by 32.\<close>

definition lower_char :: "char \<Rightarrow> char" where
  "lower_char c =
     (let n = (of_char c :: nat)
      in if (65 \<le> n \<and> n \<le> 90) \<or> (192 \<le> n \<and> n \<le> 222 \<and> n \<noteq> 215)
         then char_of (n + 32) else c)"

definition lower :: "string \<Rightarrow> string" where
  "lower s = map lower_char s"

text \<open>The character class \<^verbatim>\<open>[a-z0-9\s]\<close>.\<close>

definition is_lower_alnum :: "char \<Rightarrow> bool" where
  "is_lower_alnum c =
     (let n = (of_char c :: nat) in (97 \<le> n \<and> n \<le> 122) \<or> (48 \<le> n \<and> n \<le> 57))"

definition kept_char :: "char \<Rightarrow> bool" where
  "kept_char c = (is_lower_alnum c \<or> py_isspace c)"

text \<open>\<^verbatim>\<open>s.split()\<close>: the maximal runs of characters that are not white space. The first
  argument is the run read so far.\<close>

fun split_acc :: "string \<Rightarrow> string \<Rightarrow> string list" where
  "split_acc w [] = (if w = [] then [] else [w])"
| "split_acc w (c # cs) =
     (if py_isspace c
      then (if w = [] then split_acc [] cs else w # split_acc [] cs)
      else split_acc (w @ [c]) cs)"

definition py_split :: "string \<Rightarrow> string list" where
  "py_split s = split_acc [] s"

text \<open>\<^verbatim>\<open>sep.join(parts)\<close>.\<close>

fun py_join :: "string \<Rightarrow> string list \<Rightarrow> string" where
  "py_join sep [] = []"
| "py_join sep [w] = w"
| "py_join sep (w # ws) = w @ sep @ py_join sep ws"

text \<open>\<^verbatim>\<open>str(n)\<close> for an integer: decimal digits, a minus sign when negative.\<close>

definition digit_char :: "nat \<Rightarrow> char" where
  "digit_char d = char_of (48 + d)"

function str_nat :: "nat \<Rightarrow> string" where
  "str_nat n = (if n < 10 then [digit_char n] else str_nat (n div 10) @ [digit_char (n mod 10)])"
  by pat_completeness auto
termination
  by (relation "measure id") auto

declare str_nat.simps [simp del]

definition str_int :: "int \<Rightarrow> string" where
  "str_int i = (if i < 0 then CHR ''-'' # str_nat (nat (- i)) else str_nat (nat i))"

subsection \<open>Title normalisation: \<^verbatim>\<open>_normalize_title\<close>\<close>

definition articles :: "string list" where
  "articles = [''the'', ''a'', ''an'', ''le'', ''la'', ''les'', ''un'', ''une'',
               ''der'', ''die'', ''das'', ''el'', ''los'', ''las'']"

text \<open>
  A match of \<^verbatim>\<open>^(the|a|an|...)\s+\<close> at the start of \<open>s\<close>: the alternatives are tried in
  order; one matches when it is a prefix of \<open>s\<close> followed by at least one white-space
  character, and the greedy \<^verbatim>\<open>\s+\<close> then takes the whole run. The result is what is left
  of \<open>s\<close> behind the match.
\<close>

fun match_leading_article :: "string list \<Rightarrow> string \<Rightarrow> string option" where
  "match_leading_article [] s = None"
| "match_leading_article (a # as) s =
     (if prefix a s \<and> (case drop (length a) s of [] \<Rightarrow> False | c # _ \<Rightarrow> py_isspace c)
      then Some (dropWhile py_isspace (drop (length a) s))
      else match_leading_article as s)"

text \<open>\<^verbatim>\<open>re.sub(r'^(the|a|an|...)\s+', '', s)\<close>: the pattern is anchored, so at most the one
  match at the start is replaced.\<close>

definition strip_leading_article :: "string \<Rightarrow> string" where
  "strip_leading_article s =
     (case match_leading_article articles s of None \<Rightarrow> s | Some rest \<Rightarrow> rest)"

text \<open>\<^verbatim>\<open>re.sub(r'[^a-z0-9\s]', '', s)\<close>.\<close>

definition strip_special :: "string \<Rightarrow> string" where
  "strip_special s = filter kept_char s"

definition normalize_title :: "string \<Rightarrow> string" where
  "normalize_title ttl =
     (let normalized = lower ttl;
          normalized = strip_leading_article normalized;
          normalized = strip_special normalized;
          normalized = py_join '' '' (py_split normalized)
      in normalized)"

subsection \<open>Dates: \<^verbatim>\<open>datetime.strptime(s, '%Y-%m-%d')\<close>\<close>

text \<open>
  The standard library compiles the format into the regular expression
  \<^verbatim>\<open>(?P<Y>\d\d\d\d)-(?P<m>1[0-2]|0[1-9]|[1-9])-(?P<d>3[0-1]|[1-2]\d|0[1-9]|[1-9]| [1-9])\<close>,
  matches it at the start of the string, and raises \<^verbatim>\<open>ValueError\<close> when it does not match,
  when characters are left behind the match, or when the three numbers are not a date
  of the calendar (years 1 to 9999). A group of the expression is a list of alternatives,
  an alternative a list of character classes.
\<close>

definition is_digit :: "char \<Rightarrow> bool" where
  "is_digit c = (let n = (of_char c :: nat) in 48 \<le> n \<and> n \<le> 57)"

definition char_between :: "char \<Rightarrow> char \<Rightarrow> char \<Rightarrow> bool" where
  "char_between lo hi c = ((of_char lo :: nat) \<le> of_char c \<and> (of_char c :: nat) \<le> of_char hi)"

fun match_seq :: "(char \<Rightarrow> bool) list \<Rightarrow> string \<Rightarrow> (string \<times> string) option" where
  "match_seq [] s = Some ([], s)"
| "match_seq (p # ps) [] = None"
| "match_seq (p # ps) (c # cs) =
     (if p c
      then (case match_seq ps cs of None \<Rightarrow> None | Some (m, r) \<Rightarrow> Some (c # m, r))
      else None)"

text \<open>Alternatives are tried in order; when what follows (\<open>k\<close>) fails behind one of them,
  the next one is tried.\<close>

fun first_alt ::
  "(char \<Rightarrow> bool) list list \<Rightarrow> string \<Rightarrow> (string \<Rightarrow> string \<Rightarrow> 'a option) \<Rightarrow> 'a option" where
  "first_alt [] s k = None"
| "first_alt (a # as) s k =
     (case match_seq a s of
        None \<Rightarrow> first_alt as s k
      | Some (m, r) \<Rightarrow> (case k m r of None \<Rightarrow> first_alt as s k | Some x \<Rightarrow> Some x))"

definition year_group :: "(char \<Rightarrow> bool) list list" where
  "year_group = [[is_digit, is_digit, is_digit, is_digit]]"

definition month_group :: "(char \<Rightarrow> bool) list list" where
  "month_group =
     [[(=) CHR ''1'', char_between CHR ''0'' CHR ''2''],
      [(=) CHR ''0'', char_between CHR ''1'' CHR ''9''],
      [char_between CHR ''1'' CHR ''9'']]"

definition day_group :: "(char \<Rightarrow> bool) list list" where
  "day_group =
     [[(=) CHR ''3'', char_between CHR ''0'' CHR ''1''],
      [char_between CHR ''1'' CHR ''2'', is_digit],
      [(=) CHR ''0'', char_between CHR ''1'' CHR ''9''],
      [char_between CHR ''1'' CHR ''9''],
      [(=) CHR '' '', char_between CHR ''1'' CHR ''9'']]"

definition dash :: "(char \<Rightarrow> bool) list list" where
  "dash = [[(=) CHR ''-'']]"

text \<open>The match: the three groups and what is left of the string.\<close>

definition match_ymd :: "string \<Rightarrow> (string \<times> string \<times> string \<times> string) option" where
  "match_ymd s =
     first_alt year_group s (\<lambda>y r1.
       first_alt dash r1 (\<lambda>_ r2.
         first_alt month_group r2 (\<lambda>m r3.
           first_alt dash r3 (\<lambda>_ r4.
             first_alt day_group r4 (\<lambda>d r5. Some (y, m, d, r5))))))"

text \<open>\<^verbatim>\<open>int(group)\<close> on a group of the match: digits, for the day possibly behind a blank.\<close>

definition digits_val :: "string \<Rightarrow> int" where
  "digits_val s = foldl (\<lambda>acc c. 10 * acc + (int (of_char c) - 48)) 0 (filter is_digit s)"

definition is_leap :: "int \<Rightarrow> bool" where
  "is_leap y = (y mod 4 = 0 \<and> (y mod 100 \<noteq> 0 \<or> y mod 400 = 0))"

definition days_in_month :: "int \<Rightarrow> int \<Rightarrow> int" where
  "days_in_month y m =
     (if m = 2 then (if is_leap y then 29 else 28)
      else if m = 4 \<or> m = 6 \<or> m = 9 \<or> m = 11 then 30 else 31)"

definition strptime_ymd :: "string \<Rightarrow> exc + (int \<times> int \<times> int)" where
  "strptime_ymd s =
     (case match_ymd s of
        None \<Rightarrow> Inl ValueError
      | Some (y, m, d, rest) \<Rightarrow>
          if rest \<noteq> [] then Inl ValueError
          else let yr = digits_val y; mo = digits_val m; dy = digits_val d
               in if yr < 1 \<or> dy > days_in_month yr mo then Inl ValueError
                  else Inr (yr, mo, dy))"


subsection \<open>Detail extraction: \<^verbatim>\<open>_extract_movie_info\<close>\<close>

definition image_base_url :: string where
  "image_base_url = ''https://image.tmdb.org/t/p/w500''"

text \<open>\<^verbatim>\<open>f"{self.image_base_url}{path}" if path else None\<close>.\<close>

definition image_url :: "string option \<Rightarrow> string option" where
  "image_url path =
     (case path of None \<Rightarrow> None | Some p \<Rightarrow> if p \<noteq> [] then Some (image_base_url @ p) else None)"

definition make_actor_data :: "cast_entry \<Rightarrow> actor_data" where
  "make_actor_data person =
     \<lparr>actor_name = cast_name person, actor_id = cast_id person,
      profile_path = cast_profile_path person,
      profile_url = image_url (cast_profile_path person)\<rparr>"

text \<open>The inner loop over \<^verbatim>\<open>reversed(release_dates)\<close>: the first non-empty certification.\<close>

fun first_certification :: "release_entry list \<Rightarrow> string option" where
  "first_certification [] = None"
| "first_certification (rd # rds) =
     (case re_certification rd of
        None \<Rightarrow> first_certification rds
      | Some cert \<Rightarrow> if cert \<noteq> [] then Some cert else first_certification rds)"

text \<open>The outer loop: it stops at the first entry of the country \<^verbatim>\<open>US\<close>.\<close>

fun us_certification :: "country_entry list \<Rightarrow> string option" where
  "us_certification [] = None"
| "us_certification (country_data # others) =
     (if ce_iso_3166_1 country_data = Some ''US''
      then (case ce_release_dates country_data of
              None \<Rightarrow> None
            | Some release_dates \<Rightarrow> first_certification (rev release_dates))
      else us_certification others)"

text \<open>The \<^verbatim>\<open>try\<close>/\<^verbatim>\<open>except ValueError: pass\<close> around the year: any other exception would
  leave the function.\<close>

definition extract_release_year :: "string \<Rightarrow> exc + int option" where
  "extract_release_year rd =
     (if rd \<noteq> []
      then (case strptime_ymd rd of
              Inr (y, m, d) \<Rightarrow> Inr (Some y)
            | Inl e \<Rightarrow> if e = ValueError then Inr None else Inl e)
      else Inr None)"

definition extract_movie_info ::
  "movie_payload \<Rightarrow> credits_payload \<Rightarrow> keywords_payload \<Rightarrow> release_dates_payload
   \<Rightarrow> exc + details" where
  "extract_movie_info movie_data credits_data keywords_data release_dates_data =
     (let genres' = map genre_name (case mp_genres movie_data of None \<Rightarrow> [] | Some gs \<Rightarrow> gs);
          crew = (case cp_crew credits_data of None \<Rightarrow> [] | Some c \<Rightarrow> c);
          directors' = map crew_name (filter (\<lambda>person. crew_job person = Some ''Director'') crew);
          cast' = (case cp_cast credits_data of None \<Rightarrow> [] | Some c \<Rightarrow> c);
          main_cast = map make_actor_data (take 5 cast');
          keywords' = map keyword_name
                        (case kp_keywords keywords_data of None \<Rightarrow> [] | Some ks \<Rightarrow> ks);
          certification' = (case rp_results release_dates_data of
                              None \<Rightarrow> None | Some results \<Rightarrow> us_certification results);
          poster_path' = mp_poster_path movie_data;
          poster_url' = image_url poster_path';
          release_date' = (case mp_release_date movie_data of None \<Rightarrow> [] | Some rd \<Rightarrow> rd)
      in case extract_release_year release_date' of
           Inl e \<Rightarrow> Inl e
         | Inr release_year \<Rightarrow>
             Inr \<lparr>tmdb_id = mp_id movie_data,
                  title = mp_title movie_data,
                  original_title = mp_original_title movie_data,
                  year = release_year,
                  release_date = release_date',
                  overview = (case mp_overview movie_data of None \<Rightarrow> [] | Some v \<Rightarrow> v),
                  genres = genres',
                  directors = directors',
                  cast = main_cast,
                  runtime = mp_runtime movie_data,
                  rating = mp_vote_average movie_data,
                  vote_average = mp_vote_average movie_data,
                  vote_count = mp_vote_count movie_data,
                  popularity = mp_popularity movie_data,
                  keyword_names = keywords',
                  certification = certification',
                  poster_url = poster_url',
                  poster_path = poster_path',
                  backdrop_path = mp_backdrop_path movie_data,
                  tagline = (case mp_tagline movie_data of None \<Rightarrow> [] | Some v \<Rightarrow> v),
                  status = mp_status movie_data,
                  budget = mp_budget movie_data,
                  revenue = mp_revenue movie_data,
                  imdb_id = mp_imdb_id movie_data\<rparr>)"

text \<open>The empty dictionaries \<^verbatim>\<open>{}\<close> that stand in for a missing part of the response.\<close>

definition empty_credits :: credits_payload where
  "empty_credits = \<lparr>cp_crew = None, cp_cast = None\<rparr>"

definition empty_keywords :: keywords_payload where
  "empty_keywords = \<lparr>kp_keywords = None\<rparr>"

definition empty_release_dates :: release_dates_payload where
  "empty_release_dates = \<lparr>rp_results = None\<rparr>"

definition empty_movie_payload :: movie_payload where
  "empty_movie_payload =
     \<lparr>mp_id = None, mp_title = None, mp_original_title = None, mp_release_date = None,
      mp_overview = None, mp_genres = None, mp_runtime = None, mp_vote_average = None,
      mp_vote_count = None, mp_popularity = None, mp_poster_path = None,
      mp_backdrop_path = None, mp_tagline = None, mp_status = None, mp_budget = None,
      mp_revenue = None, mp_imdb_id = None, mp_credits = None, mp_keywords = None,
      mp_release_dates = None\<rparr>"

subsection \<open>The cache\<close>

text \<open>Truthiness of an optional number: \<^verbatim>\<open>None\<close> and zero are false.\<close>

definition truthy :: "'a::zero option \<Rightarrow> bool" where
  "truthy v = (case v of None \<Rightarrow> False | Some x \<Rightarrow> x \<noteq> 0)"

text \<open>\<^verbatim>\<open>f"{prefix}:{'_'.join(str(arg) for arg in args)}"\<close>; the arguments arrive as strings.\<close>

definition get_cache_key :: "string \<Rightarrow> string list \<Rightarrow> string" where
  "get_cache_key pfx args = pfx @ '':'' @ py_join ''_'' args"

text \<open>\<^verbatim>\<open>str(year or 'no_year')\<close>.\<close>

definition year_or_sentinel :: "int option \<Rightarrow> string" where
  "year_or_sentinel yr = (case yr of None \<Rightarrow> ''no_year''
                          | Some y \<Rightarrow> if y \<noteq> 0 then str_int y else ''no_year'')"

definition search_cache_key :: "string \<Rightarrow> int option \<Rightarrow> string" where
  "search_cache_key ttl yr = get_cache_key ''search'' [ttl, year_or_sentinel yr]"

definition details_cache_key :: "int \<Rightarrow> string" where
  "details_cache_key movie_id = get_cache_key ''details'' [str_int movie_id]"

text \<open>\<^verbatim>\<open>self.cache.get(key)\<close> on a search key: \<^verbatim>\<open>None\<close> for a missing key and for a stored
  \<^verbatim>\<open>None\<close> alike.\<close>

definition get_search_from_cache :: "client \<Rightarrow> string \<Rightarrow> int option" where
  "get_search_from_cache st key = (case search_cache st key of None \<Rightarrow> None | Some v \<Rightarrow> v)"

definition set_search_in_cache :: "client \<Rightarrow> string \<Rightarrow> int option \<Rightarrow> client" where
  "set_search_in_cache st key v = st\<lparr>search_cache := (search_cache st)(key \<mapsto> v)\<rparr>"

definition get_details_from_cache :: "client \<Rightarrow> string \<Rightarrow> details option" where
  "get_details_from_cache st key = details_cache st key"

definition set_details_in_cache :: "client \<Rightarrow> string \<Rightarrow> details \<Rightarrow> client" where
  "set_details_in_cache st key v = st\<lparr>details_cache := (details_cache st)(key \<mapsto> v)\<rparr>"

subsection \<open>Resolution: \<^verbatim>\<open>_fuzzy_match_title\<close> and \<^verbatim>\<open>search_movie\<close>\<close>

text \<open>\<^verbatim>\<open>result.get('release_date', '')[:4]\<close>.\<close>

definition hit_year :: "search_hit \<Rightarrow> string" where
  "hit_year result = take 4 (case hit_release_date result of None \<Rightarrow> [] | Some rd \<Rightarrow> rd)"

text \<open>One round of the loop of \<^verbatim>\<open>_fuzzy_match_title\<close> over the pair
  \<^verbatim>\<open>(best_match, best_score)\<close>.\<close>

definition fuzzy_step ::
  "world \<Rightarrow> string \<Rightarrow> int option \<Rightarrow> rat \<Rightarrow> int option \<times> rat \<Rightarrow> search_hit \<Rightarrow> int option \<times> rat" where
  "fuzzy_step w normalized_search yr threshold best result =
     (let result_title = (case hit_title result of None \<Rightarrow> [] | Some t \<Rightarrow> t);
          normalized_result = normalize_title result_title;
          score = fuzz_ratio w normalized_search normalized_result;
          score = (case yr of
                     None \<Rightarrow> score
                   | Some y \<Rightarrow>
                       if y \<noteq> 0 \<and> hit_year result \<noteq> [] \<and> str_int y = hit_year result
                       then score + 15 else score)
      in if score > snd best \<and> score \<ge> threshold then (Some (hit_id result), score) else best)"

definition fuzzy_match_title ::
  "world \<Rightarrow> string \<Rightarrow> search_hit list \<Rightarrow> int option \<Rightarrow> rat \<Rightarrow> int option" where
  "fuzzy_match_title w search_title results yr threshold =
     (if results = [] then None
      else fst (foldl (fuzzy_step w (normalize_title search_title) yr threshold)
                  (None, 0) (take 10 results)))"

text \<open>\<^verbatim>\<open>data.get('results', [])\<close>.\<close>

definition results_of :: "search_payload \<Rightarrow> search_hit list" where
  "results_of data = (case sp_results data of None \<Rightarrow> [] | Some rs \<Rightarrow> rs)"

text \<open>Strategy 1: the first result, when its year is the year asked for.\<close>

definition exact_year_match :: "search_hit list \<Rightarrow> int option \<Rightarrow> int option" where
  "exact_year_match results yr =
     (case (results, yr) of
        (first_result # _, Some y) \<Rightarrow>
          if y \<noteq> 0 \<and> hit_year first_result = str_int y then Some (hit_id first_result) else None
      | _ \<Rightarrow> None)"

text \<open>
  Strategy 3, the last resort on the first result, strategy 4 and the final
  \<^verbatim>\<open>None\<close>. \<open>results_no_year\<close> is \<open>None\<close> when the variable was never assigned.
\<close>

definition search_later_strategies ::
  "world \<Rightarrow> client \<Rightarrow> string \<Rightarrow> int option \<Rightarrow> string \<Rightarrow> search_hit list
   \<Rightarrow> search_hit list option \<Rightarrow> (exc + int option) \<times> client" where
  "search_later_strategies w st ttl yr cache_key results results_no_year =
     (case results of
        first_result # _ \<Rightarrow>
          (let fuzzy_match_id = fuzzy_match_title w ttl results yr 85
           in if truthy fuzzy_match_id
              then (Inr fuzzy_match_id, set_search_in_cache st cache_key fuzzy_match_id)
              else (Inr (Some (hit_id first_result)),
                    set_search_in_cache st cache_key (Some (hit_id first_result))))
      | [] \<Rightarrow>
          (let fuzzy_match_id =
                 (if truthy yr
                  then fuzzy_match_title w ttl
                         (case results_no_year of None \<Rightarrow> results | Some rs \<Rightarrow> rs) yr 75
                  else None)
           in if truthy fuzzy_match_id
              then (Inr fuzzy_match_id, set_search_in_cache st cache_key fuzzy_match_id)
              else (Inr None, set_search_in_cache st cache_key None)))"

text \<open>The \<^verbatim>\<open>try\<close> block of \<^verbatim>\<open>search_movie\<close>.\<close>

definition search_movie_try ::
  "world \<Rightarrow> client \<Rightarrow> string \<Rightarrow> int option \<Rightarrow> string \<Rightarrow> (exc + int option) \<times> client" where
  "search_movie_try w st ttl yr cache_key =
     (case make_request (\<lambda>t. search_response w t ttl (if truthy yr then yr else None)) st of
        (Inl e, st1) \<Rightarrow> (Inl e, st1)
      | (Inr data, st1) \<Rightarrow>
          (let results = results_of data
           in case exact_year_match results yr of
                Some movie_id \<Rightarrow>
                  (Inr (Some movie_id), set_search_in_cache st1 cache_key (Some movie_id))
              | None \<Rightarrow>
                  if truthy yr
                  then (case make_request (\<lambda>t. search_response w t ttl None) st1 of
                          (Inl e, st2) \<Rightarrow> (Inl e, st2)
                        | (Inr data_no_year, st2) \<Rightarrow>
                            (let results_no_year = results_of data_no_year;
                                 fuzzy_match_id = fuzzy_match_title w ttl results_no_year yr 85
                             in if truthy fuzzy_match_id
                                then (Inr fuzzy_match_id,
                                      set_search_in_cache st2 cache_key fuzzy_match_id)
                                else search_later_strategies w st2 ttl yr cache_key results
                                       (Some results_no_year)))
                  else search_later_strategies w st1 ttl yr cache_key results None))"

text \<open>\<^verbatim>\<open>search_movie\<close>: the cache check, the \<^verbatim>\<open>try\<close> block, and
  \<^verbatim>\<open>except TMDBAPIError: return None\<close>; any other exception leaves the function.\<close>

definition search_movie ::
  "world \<Rightarrow> client \<Rightarrow> string \<Rightarrow> int option \<Rightarrow> (exc + int option) \<times> client" where
  "search_movie w st ttl yr =
     (let cache_key = search_cache_key ttl yr;
          cached_id = get_search_from_cache st cache_key
      in case cached_id of
           Some i \<Rightarrow> (Inr (Some i), st)
         | None \<Rightarrow>
             (case search_movie_try w st ttl yr cache_key of
                (Inl e, st1) \<Rightarrow> if e = TMDBAPIError then (Inr None, st1) else (Inl e, st1)
              | (Inr r, st1) \<Rightarrow> (Inr r, st1)))"

subsection \<open>Details: \<^verbatim>\<open>get_movie_details\<close>\<close>

text \<open>\<^verbatim>\<open>except (TMDBAPIError, MovieNotFoundError): return None\<close>.\<close>

definition catch_tmdb_errors :: "'a \<Rightarrow> (exc + 'a) \<times> client \<Rightarrow> (exc + 'a) \<times> client" where
  "catch_tmdb_errors dflt r =
     (case r of
        (Inl e, st1) \<Rightarrow>
          if e = TMDBAPIError \<or> e = MovieNotFoundError then (Inr dflt, st1) else (Inl e, st1)
      | (Inr v, st1) \<Rightarrow> (Inr v, st1))"

definition get_movie_details :: "world \<Rightarrow> client \<Rightarrow> int \<Rightarrow> (exc + details option) \<times> client" where
  "get_movie_details w st movie_id =
     (let cache_key = details_cache_key movie_id;
          cached_details = get_details_from_cache st cache_key
      in case cached_details of
           Some d \<Rightarrow> (Inr (Some d), st)
         | None \<Rightarrow>
             catch_tmdb_errors None
               (case make_request (\<lambda>t. details_response w t movie_id) st of
                  (Inl e, st1) \<Rightarrow> (Inl e, st1)
                | (Inr movie_data, st1) \<Rightarrow>
                    (let credits_data = (case mp_credits movie_data of
                                           None \<Rightarrow> empty_credits | Some c \<Rightarrow> c);
                         keywords_data = (case mp_keywords movie_data of
                                            None \<Rightarrow> empty_keywords | Some k \<Rightarrow> k);
                         release_dates_data = (case mp_release_dates movie_data of
                                                 None \<Rightarrow> empty_release_dates | Some r \<Rightarrow> r)
                     in case extract_movie_info movie_data credits_data keywords_data
                               release_dates_data of
                          Inl e \<Rightarrow> (Inl e, st1)
                        | Inr d \<Rightarrow> (Inr (Some d), set_details_in_cache st1 cache_key d))))"

subsection \<open>Enrichment: \<^verbatim>\<open>enrich_movie\<close> and \<^verbatim>\<open>enrich_movies\<close>\<close>

definition enrich_movie :: "world \<Rightarrow> client \<Rightarrow> movie_item \<Rightarrow> (exc + enriched option) \<times> client" where
  "enrich_movie w st movie =
     (case item_title movie of
        None \<Rightarrow> (Inr None, st)
      | Some ttl \<Rightarrow>
          if ttl = [] then (Inr None, st)
          else (case search_movie w st ttl (item_year movie) of
                  (Inl e, st1) \<Rightarrow> (Inl e, st1)
                | (Inr movie_id, st1) \<Rightarrow>
                    (case movie_id of
                       None \<Rightarrow> (Inr None, st1)
                     | Some i \<Rightarrow>
                         if i = 0 then (Inr None, st1)
                         else (case get_movie_details w st1 i of
                                 (Inl e, st2) \<Rightarrow> (Inl e, st2)
                               | (Inr None, st2) \<Rightarrow> (Inr None, st2)
                               | (Inr (Some d), st2) \<Rightarrow>
                                   (Inr (Some (details.extend d (enriched.fields movie))),
                                    st2)))))"

text \<open>The sequential loop of \<^verbatim>\<open>enrich_movies\<close>: an exception of \<^verbatim>\<open>enrich_movie\<close> is not
  caught there.\<close>

fun enrich_sequential ::
  "world \<Rightarrow> client \<Rightarrow> movie_item list \<Rightarrow> enriched list \<Rightarrow> (exc + enriched list) \<times> client" where
  "enrich_sequential w st [] enriched_movies = (Inr enriched_movies, st)"
| "enrich_sequential w st (movie # movies) enriched_movies =
     (case enrich_movie w st movie of
        (Inl e, st1) \<Rightarrow> (Inl e, st1)
      | (Inr None, st1) \<Rightarrow> enrich_sequential w st1 movies enriched_movies
      | (Inr (Some e), st1) \<Rightarrow> enrich_sequential w st1 movies (enriched_movies @ [e]))"

text \<open>
  The thread pool. The tasks of a batch are submitted together and run concurrently on
  the shared client. A schedule gives, for the \<open>k\<close>-th task submitted in the call, the
  time at which it starts and the time at which it finishes. A task reads the cache as
  it is when the task starts and its writes land when it finishes: it sees the entries
  written by the tasks of its batch that finished before it started, and none of the
  others, so two tasks that start together both miss the cache and both go to the
  catalog. (The body of a task is run in one piece on that view of the cache.) The
  requests are numbered task by task in the order in which the tasks start.
\<close>

record schedule =
  start_time :: "nat \<Rightarrow> nat"
  finish_time :: "nat \<Rightarrow> nat"

text \<open>A task that has run: its number, its argument, the client as the task saw it, the
  client as the task left it, and its result (or exception).\<close>

record ('a, 'r) ran =
  ran_index :: nat
  ran_item :: 'a
  ran_view :: client
  ran_after :: client
  ran_result :: 'r

text \<open>The cache entries that differ between \<open>view\<close> and \<open>after\<close> are what the task wrote;
  they are written over \<open>target\<close>.\<close>

definition apply_writes :: "client \<Rightarrow> client \<Rightarrow> client \<Rightarrow> client" where
  "apply_writes view after target =
     target\<lparr>search_cache :=
              (\<lambda>key. if search_cache after key = search_cache view key
                      then search_cache target key else search_cache after key),
            details_cache :=
              (\<lambda>key. if details_cache after key = details_cache view key
                      then details_cache target key else details_cache after key)\<rparr>"

definition merge_writes :: "client \<Rightarrow> ('a, 'r) ran list \<Rightarrow> client" where
  "merge_writes base ds = foldl (\<lambda>st d. apply_writes (ran_view d) (ran_after d) st) base ds"

text \<open>\<^verbatim>\<open>as_completed\<close>: the futures in the order in which they finish.\<close>

definition as_completed :: "schedule \<Rightarrow> ('a, 'r) ran list \<Rightarrow> ('a, 'r) ran list" where
  "as_completed sched ds = sort_key (\<lambda>d. finish_time sched (ran_index d)) ds"

text \<open>The tasks that had finished when task \<open>k\<close> started, in the order of finishing.\<close>

definition finished_before :: "schedule \<Rightarrow> nat \<Rightarrow> ('a, 'r) ran list \<Rightarrow> ('a, 'r) ran list" where
  "finished_before sched k ds =
     as_completed sched
       (filter (\<lambda>d. finish_time sched (ran_index d) < start_time sched k) ds)"

text \<open>The tasks of the queue, taken in the order in which they start. \<open>base\<close> is the client
  at the start of the batch, \<open>prev\<close> carries the counters of the client.\<close>

fun run_in_start_order ::
  "(client \<Rightarrow> 'a \<Rightarrow> 'r \<times> client) \<Rightarrow> schedule \<Rightarrow> client \<Rightarrow> client \<Rightarrow> (nat \<times> 'a) list
   \<Rightarrow> ('a, 'r) ran list \<Rightarrow> ('a, 'r) ran list \<times> client" where
  "run_in_start_order task sched base prev [] ds = (ds, prev)"
| "run_in_start_order task sched base prev ((k, x) # queue) ds =
     (let view = (merge_writes base (finished_before sched k ds))
                   \<lparr>http_calls := http_calls prev, backoff_sleeps := backoff_sleeps prev\<rparr>;
          (r, after) = task view x
      in run_in_start_order task sched base after queue
           (ds @ [\<lparr>ran_index = k, ran_item = x, ran_view = view, ran_after = after,
                   ran_result = r\<rparr>]))"

text \<open>One batch: \<open>processed\<close> tasks were submitted before it. The result is the tasks that
  ran and the client once all of them have finished.\<close>

definition run_tasks ::
  "(client \<Rightarrow> 'a \<Rightarrow> 'r \<times> client) \<Rightarrow> schedule \<Rightarrow> nat \<Rightarrow> client \<Rightarrow> 'a list
   \<Rightarrow> ('a, 'r) ran list \<times> client" where
  "run_tasks task sched processed st batch =
     (let queue = sort_key (\<lambda>(k, x). start_time sched k)
                    (zip [processed ..< processed + length batch] batch);
          (ds, prev) = run_in_start_order task sched st st queue []
      in (ds, (merge_writes st (as_completed sched ds))
                \<lparr>http_calls := http_calls prev, backoff_sleeps := backoff_sleeps prev\<rparr>))"

text \<open>\<^verbatim>\<open>movies[batch_start:batch_end]\<close> for \<^verbatim>\<open>batch_start in range(0, total, batch_size)\<close>.\<close>

function chunks :: "nat \<Rightarrow> 'a list \<Rightarrow> 'a list list" where
  "chunks n xs = (if n = 0 \<or> xs = [] then [] else take n xs # chunks n (drop n xs))"
  by pat_completeness auto
termination
  by (relation "measure (\<lambda>(n, xs). length xs)") auto

declare chunks.simps [simp del]

text \<open>The loop over the completed futures: \<^verbatim>\<open>future.result()\<close> inside
  \<^verbatim>\<open>try\<close>/\<^verbatim>\<open>except Exception\<close>.\<close>

definition collect_enriched :: "enriched list \<Rightarrow> (exc + enriched option) list \<Rightarrow> enriched list" where
  "collect_enriched enriched_movies completed =
     foldl (\<lambda>acc r. case r of Inr (Some e) \<Rightarrow> acc @ [e] | _ \<Rightarrow> acc) enriched_movies completed"

fun enrich_batches ::
  "world \<Rightarrow> schedule \<Rightarrow> client \<Rightarrow> nat \<Rightarrow> movie_item list list \<Rightarrow> enriched list
   \<Rightarrow> enriched list \<times> client" where
  "enrich_batches w sched st processed [] enriched_movies = (enriched_movies, st)"
| "enrich_batches w sched st processed (batch # batches) enriched_movies =
     (let (futures, st1) = run_tasks (enrich_movie w) sched processed st batch
      in enrich_batches w sched st1 (processed + length batch) batches
           (collect_enriched enriched_movies
              (map ran_result (as_completed sched futures))))"

text \<open>\<^verbatim>\<open>_enrich_movies_parallel\<close>: \<^verbatim>\<open>range\<close> raises \<^verbatim>\<open>ValueError\<close> on a step of zero and is
  empty on a negative step.\<close>

definition enrich_movies_parallel ::
  "world \<Rightarrow> schedule \<Rightarrow> client \<Rightarrow> movie_item list \<Rightarrow> int \<Rightarrow> (exc + enriched list) \<times> client" where
  "enrich_movies_parallel w sched st movies batch_size =
     (if batch_size = 0 then (Inl ValueError, st)
      else if batch_size < 0 then (Inr [], st)
      else (let (enriched_movies, st1) =
                  enrich_batches w sched st 0 (chunks (nat batch_size) movies) []
            in (Inr enriched_movies, st1)))"

definition enrich_movies ::
  "world \<Rightarrow> schedule \<Rightarrow> client \<Rightarrow> movie_item list \<Rightarrow> bool \<Rightarrow> int
   \<Rightarrow> (exc + enriched list) \<times> client" where
  "enrich_movies w sched st movies in_parallel batch_size =
     (let total = length movies
      in if in_parallel \<and> total > 1
         then enrich_movies_parallel w sched st movies batch_size
         else enrich_sequential w st movies [])"

subsection \<open>Sample worlds\<close>

text \<open>A similarity that only knows equal and unequal strings.\<close>

definition exact_ratio :: "string \<Rightarrow> string \<Rightarrow> rat" where
  "exact_ratio a b = (if a = b then 100 else 0)"

definition no_results :: search_payload where
  "no_results = \<lparr>sp_results = Some []\<rparr>"

text \<open>A catalog that knows no title at the first call and one title from then on.\<close>

definition world_found_later :: world where
  "world_found_later =
     \<lparr>search_response = (\<lambda>t ttl yr.
          if t = 0 then Response 200 no_results
          else Response 200 \<lparr>sp_results = Some [\<lparr>hit_id = 7, hit_title = Some ''Zzz'',
                                                   hit_release_date = None\<rparr>]\<rparr>),
      details_response = (\<lambda>t i. Response 404 empty_movie_payload),
      similar_response = (\<lambda>t i. Response 200 no_results),
      recommendations_response = (\<lambda>t i. Response 200 no_results),
      fuzz_ratio = exact_ratio\<rparr>"

text \<open>A catalog that never knows any title.\<close>

definition world_empty :: world where
  "world_empty =
     \<lparr>search_response = (\<lambda>t ttl yr. Response 200 no_results),
      details_response = (\<lambda>t i. Response 404 empty_movie_payload),
      similar_response = (\<lambda>t i. Response 200 no_results),
      recommendations_response = (\<lambda>t i. Response 200 no_results),
      fuzz_ratio = exact_ratio\<rparr>"

text \<open>A catalog with one film, found by every search; the search for the title \<^verbatim>\<open>X\<close> is
  answered with status 404.\<close>

definition matrix_payload :: movie_payload where
  "matrix_payload = empty_movie_payload\<lparr>mp_id := Some 603, mp_title := Some ''The Matrix'',
                      mp_release_date := Some ''1999-03-30'', mp_vote_average := Some 8\<rparr>"

definition world_matrix :: world where
  "world_matrix =
     \<lparr>search_response = (\<lambda>t ttl yr.
          if ttl = ''X'' then Response 404 no_results
          else Response 200 \<lparr>sp_results = Some [\<lparr>hit_id = 603, hit_title = Some ''The Matrix'',
                                                   hit_release_date = Some ''1999-03-30''\<rparr>]\<rparr>),
      details_response = (\<lambda>t i. if i = 603 then Response 200 matrix_payload
                                  else Response 404 empty_movie_payload),
      similar_response = (\<lambda>t i. Response 200 no_results),
      recommendations_response = (\<lambda>t i. Response 200 no_results),
      fuzz_ratio = exact_ratio\<rparr>"

subsection \<open>Neighbours: \<^verbatim>\<open>get_similar_movies\<close> and \<^verbatim>\<open>get_movie_recommendations\<close>\<close>

text \<open>\<^verbatim>\<open>xs[:k]\<close>: a negative \<open>k\<close> counts from the end.\<close>

definition py_slice_to :: "int \<Rightarrow> 'a list \<Rightarrow> 'a list" where
  "py_slice_to k xs = take (nat (if k < 0 then int (length xs) + k else k)) xs"

text \<open>\<^verbatim>\<open>int(s)\<close> on a string: white space around is dropped, a sign may lead, and the digits
  may be separated by single underscores; anything else raises \<^verbatim>\<open>ValueError\<close>. The white
  space of \<^verbatim>\<open>int\<close> is narrower than that of \<^verbatim>\<open>split\<close>: the ASCII blank and \<open>0x09..0x0D\<close>, and
  the two Latin-1 spaces above ASCII, which are turned into blanks first; the separators
  \<open>0x1C..0x1F\<close> are not dropped.\<close>

definition int_isspace :: "char \<Rightarrow> bool" where
  "int_isspace c =
     (let n = (of_char c :: nat) in (9 \<le> n \<and> n \<le> 13) \<or> n = 32 \<or> n = 133 \<or> n = 160)"

definition py_strip :: "string \<Rightarrow> string" where
  "py_strip s = rev (dropWhile int_isspace (rev (dropWhile int_isspace s)))"

fun int_body_ok :: "string \<Rightarrow> bool" where
  "int_body_ok [] = False"
| "int_body_ok [c] = is_digit c"
| "int_body_ok (c # d # cs) =
     (is_digit c \<and> (if d = CHR ''_'' then int_body_ok cs else int_body_ok (d # cs)))"

definition py_int :: "string \<Rightarrow> exc + int" where
  "py_int s =
     (let t = py_strip s;
          (negative, body) =
             (case t of
                [] \<Rightarrow> (False, [])
              | c # cs \<Rightarrow> if c = CHR ''-'' then (True, cs)
                          else if c = CHR ''+'' then (False, cs) else (False, t))
      in if int_body_ok body
         then Inr (if negative then - digits_val body else digits_val body)
         else Inl ValueError)"

text \<open>The dictionary built for one result: \<^verbatim>\<open>movie['title']\<close> raises \<^verbatim>\<open>KeyError\<close> on a missing
  title, \<^verbatim>\<open>int(movie['release_date'][:4])\<close> raises \<^verbatim>\<open>ValueError\<close> on a date that does not
  start with a number.\<close>

definition to_candidate :: "search_hit \<Rightarrow> exc + candidate" where
  "to_candidate movie =
     (case hit_title movie of
        None \<Rightarrow> Inl KeyError
      | Some ttl \<Rightarrow>
          (case hit_release_date movie of
             None \<Rightarrow> Inr \<lparr>cand_tmdb_id = hit_id movie, cand_title = ttl, cand_year = None\<rparr>
           | Some rd \<Rightarrow>
               if rd = []
               then Inr \<lparr>cand_tmdb_id = hit_id movie, cand_title = ttl, cand_year = None\<rparr>
               else (case py_int (take 4 rd) of
                       Inl e \<Rightarrow> Inl e
                     | Inr y \<Rightarrow> Inr \<lparr>cand_tmdb_id = hit_id movie, cand_title = ttl,
                                     cand_year = Some y\<rparr>)))"

fun to_candidates :: "search_hit list \<Rightarrow> exc + candidate list" where
  "to_candidates [] = Inr []"
| "to_candidates (movie # results) =
     (case to_candidate movie of
        Inl e \<Rightarrow> Inl e
      | Inr c \<Rightarrow> (case to_candidates results of Inl e \<Rightarrow> Inl e | Inr cs \<Rightarrow> Inr (c # cs)))"

text \<open>The common body of the two functions; they differ in the endpoint only.\<close>

definition fetch_neighbours ::
  "(nat \<Rightarrow> search_payload http_outcome) \<Rightarrow> client \<Rightarrow> int \<Rightarrow> (exc + candidate list) \<times> client" where
  "fetch_neighbours resp st max_results =
     catch_tmdb_errors []
       (case make_request resp st of
          (Inl e, st1) \<Rightarrow> (Inl e, st1)
        | (Inr data, st1) \<Rightarrow> (to_candidates (py_slice_to max_results (results_of data)), st1))"

definition get_similar_movies ::
  "world \<Rightarrow> client \<Rightarrow> int \<Rightarrow> int \<Rightarrow> (exc + candidate list) \<times> client" where
  "get_similar_movies w st movie_id max_results =
     fetch_neighbours (\<lambda>t. similar_response w t movie_id) st max_results"

definition get_movie_recommendations ::
  "world \<Rightarrow> client \<Rightarrow> int \<Rightarrow> int \<Rightarrow> (exc + candidate list) \<times> client" where
  "get_movie_recommendations w st movie_id max_results =
     fetch_neighbours (\<lambda>t. recommendations_response w t movie_id) st max_results"

subsection \<open>The candidate pool: \<^verbatim>\<open>build_candidate_pool\<close>\<close>

text \<open>\<^verbatim>\<open>{movie.get('tmdb_id') for movie in watched_movies if movie.get('tmdb_id')}\<close>.\<close>

definition watched_ids :: "'a details_scheme list \<Rightarrow> int set" where
  "watched_ids watched_movies =
     set (List.map_filter (\<lambda>movie. if truthy (tmdb_id movie) then tmdb_id movie else None)
            watched_movies)"

text \<open>The inner loops over \<^verbatim>\<open>similar\<close> and \<^verbatim>\<open>recs\<close>, on the pair
  \<^verbatim>\<open>(candidate_ids, candidate_movies)\<close>.\<close>

fun add_candidates ::
  "int set \<Rightarrow> int set \<times> candidate list \<Rightarrow> candidate list \<Rightarrow> int set \<times> candidate list" where
  "add_candidates wids acc [] = acc"
| "add_candidates wids acc (sim # sims) =
     (if cand_tmdb_id sim \<notin> wids \<and> cand_tmdb_id sim \<notin> fst acc
      then add_candidates wids (insert (cand_tmdb_id sim) (fst acc), snd acc @ [sim]) sims
      else add_candidates wids acc sims)"

text \<open>The loop over the watched films, with its \<^verbatim>\<open>continue\<close> and its \<^verbatim>\<open>break\<close>.\<close>

fun gather_candidates ::
  "world \<Rightarrow> client \<Rightarrow> int set \<Rightarrow> int \<Rightarrow> int \<Rightarrow> int set \<times> candidate list
   \<Rightarrow> 'a details_scheme list \<Rightarrow> (exc + int set \<times> candidate list) \<times> client" where
  "gather_candidates w st wids candidates_per_movie max_candidates acc [] = (Inr acc, st)"
| "gather_candidates w st wids candidates_per_movie max_candidates acc (movie # movies) =
     (case tmdb_id movie of
        None \<Rightarrow> gather_candidates w st wids candidates_per_movie max_candidates acc movies
      | Some movie_id \<Rightarrow>
          if movie_id = 0
          then gather_candidates w st wids candidates_per_movie max_candidates acc movies
          else (case get_similar_movies w st movie_id (candidates_per_movie div 2) of
                  (Inl e, st1) \<Rightarrow> (Inl e, st1)
                | (Inr similar, st1) \<Rightarrow>
                    (case get_movie_recommendations w st1 movie_id
                            (candidates_per_movie div 2) of
                       (Inl e, st2) \<Rightarrow> (Inl e, st2)
                     | (Inr recs, st2) \<Rightarrow>
                         (let acc2 = add_candidates wids (add_candidates wids acc similar) recs
                          in if int (length (snd acc2)) \<ge> max_candidates
                             then (Inr acc2, st2)
                             else gather_candidates w st2 wids candidates_per_movie
                                    max_candidates acc2 movies))))"

text \<open>The rating filter: \<^verbatim>\<open>if min_rating and min_rating > 0\<close>, then
  \<^verbatim>\<open>movie_rating and movie_rating >= min_rating\<close>.\<close>

definition rating_filter_on :: "rat option \<Rightarrow> bool" where
  "rating_filter_on min_rating = (case min_rating of None \<Rightarrow> False | Some m \<Rightarrow> m \<noteq> 0 \<and> m > 0)"

definition passes_rating :: "rat option \<Rightarrow> details \<Rightarrow> bool" where
  "passes_rating min_rating d =
     (if rating_filter_on min_rating
      then (case (rating d, min_rating) of
              (Some movie_rating, Some m) \<Rightarrow> movie_rating \<noteq> 0 \<and> movie_rating \<ge> m
            | _ \<Rightarrow> False)
      else True)"

text \<open>The loop over the completed futures of a batch, inside \<^verbatim>\<open>try\<close>/\<^verbatim>\<open>except Exception\<close>.\<close>

definition collect_candidates ::
  "rat option \<Rightarrow> details list \<Rightarrow> (exc + details option) list \<Rightarrow> details list" where
  "collect_candidates min_rating enriched_candidates completed =
     foldl (\<lambda>acc r. case r of
                       Inr (Some d) \<Rightarrow> if passes_rating min_rating d then acc @ [d] else acc
                     | _ \<Rightarrow> acc)
       enriched_candidates completed"

definition details_task :: "world \<Rightarrow> client \<Rightarrow> candidate \<Rightarrow> (exc + details option) \<times> client" where
  "details_task w st c = get_movie_details w st (cand_tmdb_id c)"

fun enrich_candidate_batches ::
  "world \<Rightarrow> schedule \<Rightarrow> rat option \<Rightarrow> client \<Rightarrow> nat \<Rightarrow> candidate list list \<Rightarrow> details list
   \<Rightarrow> details list \<times> client" where
  "enrich_candidate_batches w sched min_rating st processed [] enriched_candidates =
     (enriched_candidates, st)"
| "enrich_candidate_batches w sched min_rating st processed (batch # batches)
       enriched_candidates =
     (let (futures, st1) = run_tasks (details_task w) sched processed st batch
      in enrich_candidate_batches w sched min_rating st1 (processed + length batch) batches
           (collect_candidates min_rating enriched_candidates
              (map ran_result (as_completed sched futures))))"

definition build_candidate_pool ::
  "world \<Rightarrow> schedule \<Rightarrow> client \<Rightarrow> 'a details_scheme list \<Rightarrow> int \<Rightarrow> int \<Rightarrow> rat option
   \<Rightarrow> (exc + details list) \<times> client" where
  "build_candidate_pool w sched st watched_movies candidates_per_movie max_candidates
       min_rating =
     (case gather_candidates w st (watched_ids watched_movies) candidates_per_movie
             max_candidates ({}, []) watched_movies of
        (Inl e, st1) \<Rightarrow> (Inl e, st1)
      | (Inr (candidate_ids, candidate_movies), st1) \<Rightarrow>
          (let candidate_movies = py_slice_to max_candidates candidate_movies;
               (enriched_candidates, st2) =
                  enrich_candidate_batches w sched min_rating st1 0
                    (chunks 10 candidate_movies) []
           in (Inr enriched_candidates, st2)))"

text \<open>The results that are neither an exception nor \<^verbatim>\<open>None\<close>.\<close>

definition successes :: "(exc + 'a option) list \<Rightarrow> 'a list" where
  "successes rs = List.map_filter (\<lambda>r. case r of Inr (Some d) \<Rightarrow> Some d | _ \<Rightarrow> None) rs"

text \<open>The detail tasks of all batches, and the client behind the last one; then the records
  fetched for a list of candidates: what the batches hand to the rating filter.\<close>

fun fetch_batches ::
  "world \<Rightarrow> schedule \<Rightarrow> client \<Rightarrow> nat \<Rightarrow> candidate list list
   \<Rightarrow> (candidate, exc + details option) ran list \<times> client" where
  "fetch_batches w sched st processed [] = ([], st)"
| "fetch_batches w sched st processed (batch # batches) =
     (let (futures, st1) = run_tasks (details_task w) sched processed st batch;
          (others, st2) = fetch_batches w sched st1 (processed + length batch) batches
      in (futures @ others, st2))"

definition fetched_details :: "world \<Rightarrow> schedule \<Rightarrow> client \<Rightarrow> candidate list \<Rightarrow> details list" where
  "fetched_details w sched st cands =
     successes (map ran_result (fst (fetch_batches w sched st 0 (chunks 10 cands))))"

text \<open>A catalog for the candidate pool: the neighbours of every film are 604 to 607 and
  the watched film 603; the details of 604 lack a rating, those of 607 have rating 0.\<close>

definition hit :: "int \<Rightarrow> string \<Rightarrow> search_hit" where
  "hit i ttl = \<lparr>hit_id = i, hit_title = Some ttl, hit_release_date = Some ''1999-03-30''\<rparr>"

definition world_pool :: world where
  "world_pool =
     \<lparr>search_response = (\<lambda>t ttl yr. Response 200 no_results),
      details_response = (\<lambda>t i. Response 200
          (empty_movie_payload\<lparr>mp_id := Some i,
             mp_vote_average := (if i = 604 then None else if i = 605 then Some 7
                                 else if i = 606 then Some 9 else Some 0)\<rparr>)),
      similar_response = (\<lambda>t i. Response 200
          \<lparr>sp_results = Some [hit 604 ''A'', hit 605 ''B'']\<rparr>),
      recommendations_response = (\<lambda>t i. Response 200
          \<lparr>sp_results = Some [hit 605 ''B'', hit 606 ''C'', hit 603 ''The Matrix'',
                              hit 607 ''D'']\<rparr>),
      fuzz_ratio = exact_ratio\<rparr>"

definition blank_details :: details where
  "blank_details =
     \<lparr>tmdb_id = None, title = None, original_title = None, year = None, release_date = [],
      overview = [], genres = [], directors = [], cast = [], runtime = None, rating = None,
      vote_average = None, vote_count = None, popularity = None, keyword_names = [],
      certification = None, poster_url = None, poster_path = None, backdrop_path = None,
      tagline = [], status = None, budget = None, revenue = None, imdb_id = None\<rparr>"

definition watched_matrix :: "details list" where
  "watched_matrix = [blank_details\<lparr>tmdb_id := Some 603, title := Some ''The Matrix''\<rparr>]"

text \<open>Two schedules: all tasks start together and finish in the order of submission; and
  all tasks start together and finish in the reverse order.\<close>

definition all_at_once :: schedule where
  "all_at_once = \<lparr>start_time = (\<lambda>k. 0), finish_time = (\<lambda>k. Suc k)\<rparr>"

definition last_first :: schedule where
  "last_first = \<lparr>start_time = (\<lambda>k. 0), finish_time = (\<lambda>k. 1000 - k)\<rparr>"

text \<open>One task after the other: each starts when the one before it has finished.\<close>

definition one_by_one :: schedule where
  "one_by_one = \<lparr>start_time = (\<lambda>k. 2 * k), finish_time = (\<lambda>k. 2 * k + 1)\<rparr>"

text \<open>What the loops keep true of \<^verbatim>\<open>(candidate_ids, candidate_movies)\<close>: the set holds the ids
  of the list, no id occurs twice, none is a watched id.\<close>

definition candidates_ok :: "int set \<Rightarrow> int set \<times> candidate list \<Rightarrow> bool" where
  "candidates_ok wids acc =
     (fst acc = cand_tmdb_id ` set (snd acc) \<and> distinct (map cand_tmdb_id (snd acc))
      \<and> fst acc \<inter> wids = {})"

text \<open>Two conditions on the surroundings of the pool. The catalog answers a details
  request for an id with the record of that id; and the details cache holds, under the
  key of an id, a record of that id.\<close>

definition catalog_echoes_id :: "world \<Rightarrow> bool" where
  "catalog_echoes_id w =
     (\<forall>t i p. details_response w t i = Response 200 p \<longrightarrow> mp_id p = Some i)"

definition details_cache_ok :: "client \<Rightarrow> bool" where
  "details_cache_ok st =
     (\<forall>i d. details_cache st (details_cache_key i) = Some d \<longrightarrow> tmdb_id d = Some i)"

text \<open>The record extracted from a payload that has an id and a rating only.\<close>

definition sample_details :: "int \<Rightarrow> rat option \<Rightarrow> details" where
  "sample_details i r = blank_details\<lparr>tmdb_id := Some i, rating := r, vote_average := r\<rparr>"

(*THEOREMS*)

section \<open>Properties\<close>

subsection \<open>Transport\<close>

lemma make_request_body_not_retried:
  "fst (make_request_body resp st) = Inl e \<Longrightarrow> \<not> retry_if_exception_type e"
  by (cases "resp (http_calls st)")
     (auto simp: make_request_body_def except_clauses_def check_response_def
        retry_if_exception_type_def split: if_splits sum.splits)

text \<open>The decorated function never makes a second attempt: whatever the catalog does, it
  is the body run once.\<close>

lemma make_request_single_attempt:
  "make_request resp st = make_request_body resp st"
proof (cases "make_request_body resp st")
  case (Pair r st')
  show ?thesis
  proof (cases r)
    case (Inl e)
    with Pair make_request_body_not_retried[of resp st e] show ?thesis
      by (simp add: make_request_def)
  next
    case (Inr v)
    with Pair show ?thesis by (simp add: make_request_def)
  qed
qed

lemma make_request_calls:
  "http_calls (snd (make_request resp st)) = Suc (http_calls st)"
  by (simp add: make_request_single_attempt make_request_body_def)

text \<open>The decorator itself does retry a body that lets the request exception out: three
  attempts, waits of 2 s and 2 s, then \<^verbatim>\<open>RetryError\<close>.\<close>

lemma retrying_request_exception:
  "retrying (\<lambda>st. (Inl RequestsTimeout :: exc + nat, st\<lparr>http_calls := Suc (http_calls st)\<rparr>))
       1 new_client
     = (Inl RetryError, new_client\<lparr>http_calls := 3, backoff_sleeps := [2, 2]\<rparr>)"
  by (simp add: new_client_def retry_if_exception_type_def stop_after_attempt_def
        wait_exponential_def numeral_3_eq_3)

text \<open>
  Claim C1 (retry on transport failures). The claim asks for three attempts on three
  consecutive timeouts and for two attempts on a timeout followed by a success. The code
  converts the timeout into \<^verbatim>\<open>TMDBAPIError\<close> inside the decorated function, so the decorator
  never sees a request exception: on a catalog that always times out, and on one that
  times out once and then answers 200, \<^verbatim>\<open>_make_request\<close> raises \<^verbatim>\<open>TMDBAPIError\<close> after one
  HTTP call and no backoff.
\<close>

theorem make_request_timeouts_not_retried:
  "make_request (\<lambda>n. GetRaises RequestsTimeout :: search_payload http_outcome) new_client
     = (Inl TMDBAPIError, new_client\<lparr>http_calls := 1\<rparr>)
   \<and> make_request
       (\<lambda>n. if n = 0 then GetRaises RequestsTimeout else Response 200 \<lparr>sp_results = None\<rparr>)
       new_client
     = (Inl TMDBAPIError, new_client\<lparr>http_calls := 1\<rparr>)"
  by (simp add: make_request_def make_request_body_def except_clauses_def check_response_def
        retry_if_exception_type_def new_client_def)

subsection \<open>Title normalisation\<close>

lemma is_lower_alnum_not_space: "is_lower_alnum c \<Longrightarrow> \<not> py_isspace c"
  by (auto simp: is_lower_alnum_def py_isspace_def Let_def)

lemma lower_char_kept: "kept_char c \<Longrightarrow> lower_char c = c"
  by (auto simp: kept_char_def is_lower_alnum_def py_isspace_def lower_char_def Let_def)

lemma space_is_space: "py_isspace CHR '' ''"
  by (simp add: py_isspace_def)

text \<open>Splitting a string of kept characters gives non-empty words of \<open>a-z0-9\<close>.\<close>

lemma split_acc_words:
  "list_all kept_char s \<Longrightarrow> list_all is_lower_alnum w \<Longrightarrow>
   list_all (\<lambda>v. v \<noteq> [] \<and> list_all is_lower_alnum v) (split_acc w s)"
proof (induction s arbitrary: w)
  case Nil
  then show ?case by simp
next
  case (Cons c cs)
  show ?case
  proof (cases "py_isspace c")
    case True
    with Cons show ?thesis by simp
  next
    case False
    with Cons.prems have "is_lower_alnum c" by (simp add: kept_char_def)
    with Cons False show ?thesis by simp
  qed
qed

lemma split_acc_append:
  "list_all (\<lambda>c. \<not> py_isspace c) v \<Longrightarrow> split_acc w (v @ s) = split_acc (w @ v) s"
  by (induction v arbitrary: w) auto

text \<open>Joining such words with one blank and splitting again gives the words back.\<close>

lemma split_join_words:
  "list_all (\<lambda>v. v \<noteq> [] \<and> list_all is_lower_alnum v) ws \<Longrightarrow>
   split_acc [] (py_join '' '' ws) = ws"
proof (induction "'' ''" ws rule: py_join.induct)
  case 1
  then show ?case by simp
next
  case (2 w)
  then have "list_all (\<lambda>c. \<not> py_isspace c) w"
    by (auto simp: list_all_iff is_lower_alnum_not_space)
  from split_acc_append[OF this, of "[]" "[]"] 2 show ?case by simp
next
  case (3 w v vs)
  then have ns: "list_all (\<lambda>c. \<not> py_isspace c) w" and ne: "w \<noteq> []"
    by (auto simp: list_all_iff is_lower_alnum_not_space)
  have "split_acc [] (w @ CHR '' '' # py_join '' '' (v # vs))
        = split_acc w (CHR '' '' # py_join '' '' (v # vs))"
    using split_acc_append[OF ns, of "[]"] by simp
  also have "\<dots> = w # split_acc [] (py_join '' '' (v # vs))"
    using ne space_is_space by simp
  also have "\<dots> = w # v # vs" using 3 by simp
  finally show ?case by simp
qed

lemma join_words_kept:
  "list_all (\<lambda>v. v \<noteq> [] \<and> list_all is_lower_alnum v) ws \<Longrightarrow>
   list_all kept_char (py_join '' '' ws)"
  by (induction "'' ''" ws rule: py_join.induct)
     (auto simp: list_all_iff kept_char_def space_is_space)

lemma normalize_title_words:
  "\<exists>ws. normalize_title x = py_join '' '' ws
        \<and> list_all (\<lambda>v. v \<noteq> [] \<and> list_all is_lower_alnum v) ws"
proof -
  let ?z = "strip_special (strip_leading_article (lower x))"
  have "list_all kept_char ?z" by (simp add: strip_special_def list_all_iff)
  then have "list_all (\<lambda>v. v \<noteq> [] \<and> list_all is_lower_alnum v) (py_split ?z)"
    unfolding py_split_def by (rule split_acc_words) simp
  then show ?thesis by (auto simp: normalize_title_def)
qed

text \<open>On a normalised string only the article step of a second pass can change anything.\<close>

lemma normalize_title_fixed:
  assumes "list_all (\<lambda>v. v \<noteq> [] \<and> list_all is_lower_alnum v) ws"
    and "match_leading_article articles (py_join '' '' ws) = None"
  shows "normalize_title (py_join '' '' ws) = py_join '' '' ws"
proof -
  let ?y = "py_join '' '' ws"
  have k: "list_all kept_char ?y" using assms(1) by (rule join_words_kept)
  then have "lower ?y = ?y"
    by (auto simp: lower_def list_all_iff lower_char_kept intro: map_idI)
  moreover have "strip_leading_article ?y = ?y"
    using assms(2) by (simp add: strip_leading_article_def)
  moreover have "strip_special ?y = ?y"
    using k by (simp add: strip_special_def list_all_iff)
  moreover have "py_split ?y = ws"
    using assms(1) by (simp add: py_split_def split_join_words)
  ultimately show ?thesis by (simp add: normalize_title_def)
qed

text \<open>
  Claim C4 as stated (normalisation is idempotent on every string) fails: only one
  leading article is stripped, so a title with two of them loses the second one in the
  second pass.
\<close>

theorem normalize_title_not_idempotent:
  "normalize_title (normalize_title ''The The Matrix'') \<noteq> normalize_title ''The The Matrix''"
  by code_simp

text \<open>
  Claim C4, amended: for every string \<open>x\<close> whose normalisation does not itself begin with
  one of the listed articles followed by white space, normalising twice equals
  normalising once.
\<close>

theorem normalize_title_idempotent_without_article:
  "match_leading_article articles (normalize_title x) = None \<Longrightarrow>
   normalize_title (normalize_title x) = normalize_title x"
  using normalize_title_words[of x] normalize_title_fixed by auto

theorem normalize_title_idempotent_without_article_witness:
  "match_leading_article articles (normalize_title ''The Matrix'') = None
   \<and> normalize_title (normalize_title ''The Matrix'') = normalize_title ''The Matrix''"
proof -
  have h: "match_leading_article articles (normalize_title ''The Matrix'') = None"
    by code_simp
  show ?thesis using h normalize_title_idempotent_without_article[OF h] by simp
qed

subsection \<open>Detail extraction\<close>

lemma strptime_ymd_only_ValueError: "strptime_ymd s = Inl e \<Longrightarrow> e = ValueError"
  by (auto simp: strptime_ymd_def Let_def split: option.splits if_splits prod.splits)

lemma extract_release_year_total: "\<exists>y. extract_release_year rd = Inr y"
  using strptime_ymd_only_ValueError[of rd]
  by (cases "strptime_ymd rd") (auto simp: extract_release_year_def)


text \<open>Extraction never raises, whatever the payload of the schema.\<close>

lemma extract_movie_info_total: "\<exists>d. extract_movie_info m c k r = Inr d"
  using extract_release_year_total[of "case mp_release_date m of None \<Rightarrow> [] | Some rd \<Rightarrow> rd"]
  by (auto simp: extract_movie_info_def Let_def)




subsection \<open>Resolution and its cache\<close>


lemma set_search_in_cache_lookup [simp]:
  "search_cache (set_search_in_cache st k v) k = Some v"
  by (simp add: set_search_in_cache_def)











text \<open>
  Claim C2 (a repeated resolution is served from the cache, for an identity and for the
  absent outcome alike). The absent outcome is stored as \<^verbatim>\<open>None\<close>, and the cache check
  \<^verbatim>\<open>cached_id is not None\<close> cannot tell a stored \<^verbatim>\<open>None\<close> from a missing key: on a catalog
  that knows no title, the second resolution of the same query makes a second HTTP call;
  on a catalog that knows the title from the second call on, it even returns another
  outcome than the first.
\<close>

theorem search_movie_absent_not_cached:
  "(let (r1, st1) = search_movie world_empty new_client ''Zzz'' None;
        (r2, st2) = search_movie world_empty st1 ''Zzz'' None
    in r1 = Inr None \<and> search_cache st1 (search_cache_key ''Zzz'' None) = Some None
       \<and> http_calls st1 = 1 \<and> r2 = Inr None \<and> http_calls st2 = 2)
   \<and> (let (r1, st1) = search_movie world_found_later new_client ''Zzz'' None;
           (r2, st2) = search_movie world_found_later st1 ''Zzz'' None
       in r1 = Inr None \<and> http_calls st1 = 1 \<and> r2 = Inr (Some 7) \<and> http_calls st2 = 2)"
  by code_simp




subsection \<open>Batch enrichment\<close>

text \<open>
  Claim C5 (a failing item only removes itself from the output and never aborts the
  batch). \<^verbatim>\<open>search_movie\<close> catches \<^verbatim>\<open>TMDBAPIError\<close> only, so the \<^verbatim>\<open>MovieNotFoundError\<close> of a
  404 on the search leaves \<^verbatim>\<open>enrich_movie\<close>; the parallel loop absorbs it, the sequential
  loop (taken for a single item, or with \<^verbatim>\<open>parallel=False\<close>) does not. On a catalog that
  answers the search for \<^verbatim>\<open>X\<close> with 404: the one-item batch raises; the two-item batch run
  sequentially raises and loses the item that resolves; the same batch run in parallel
  returns exactly that item.
\<close>

theorem enrich_movies_search_404_aborts:
  "fst (enrich_movies world_matrix all_at_once new_client
          [\<lparr>item_title = Some ''X'', item_year = None\<rparr>] True 10)
     = Inl MovieNotFoundError
   \<and> fst (enrich_movies world_matrix all_at_once new_client
            [\<lparr>item_title = Some ''X'', item_year = None\<rparr>,
             \<lparr>item_title = Some ''The Matrix'', item_year = Some 1999\<rparr>] False 10)
     = Inl MovieNotFoundError
   \<and> map_sum id (map tmdb_id)
        (fst (enrich_movies world_matrix all_at_once new_client
               [\<lparr>item_title = Some ''X'', item_year = None\<rparr>,
                \<lparr>item_title = Some ''The Matrix'', item_year = Some 1999\<rparr>] True 10))
     = Inr [Some 603]"
  by code_simp

end
